theory Spec2Isabelle
  imports Main "HOL-Library.Monad_Syntax"
begin

section \<open>The layer store of registry/storage/layerstore.go\<close>

text \<open>
  The file defines the type \<open>layerStore\<close> and its methods \<open>Exists\<close>, \<open>Fetch\<close>,
  \<open>Upload\<close>, \<open>Resume\<close>, \<open>Delete\<close>, \<open>newLayerUpload\<close> and \<open>path\<close>. Everything
  else it calls lives in other files or packages: the storage driver (an interface), the
  path mapper, the blob store's link resolution, the tombstone manager, the file reader
  and writer, and Go's \<open>time\<close> package. Each of these is modelled below, next to a
  note saying where the model comes from.
\<close>

subsection \<open>Errors\<close>

type_synonym fspath = string
type_synonym digest = string
type_synonym bytes = string

text \<open>
  Go has one \<open>error\<close> interface, and the methods tell error values apart by a type
  switch. Two layers of error values occur. The layers below the layer store (storage
  driver, path mapper, blob store, file reader and writer, tombstone manager) report
  \<open>storagedriver.PathNotFoundError\<close> or some other failure; none of them builds
  an error of the \<open>distribution\<close> package. The layer store adds
  \<open>distribution.ErrUnknownLayer\<close> (which carries the digest),
  \<open>distribution.ErrLayerUploadUnknown\<close> and the parse error of \<open>time.Parse\<close>,
  and passes a lower error on as it is (\<open>Lower\<close>).
\<close>

datatype lower_error =
    is_PathNotFoundError: PathNotFoundError fspath
  | OtherError string

datatype error =
    ErrUnknownLayer digest
  | ErrLayerUploadUnknown
  | ParseError string
  | Lower lower_error

subsection \<open>The storage driver\<close>

text \<open>
  Modelled from the spec: the storage driver is an interface
  (\<open>storagedriver.StorageDriver\<close>) implemented outside this file. Its contract is
  \<open>Stat(path) \<rightarrow> metadata | NotFoundError\<close>, \<open>GetContent(path) \<rightarrow> bytes | NotFoundError\<close>,
  \<open>PutContent(path, bytes) \<rightarrow> ok/error\<close>, and every other backend failure is passed
  through to the caller. The model is a key/value store: \<open>files\<close> holds the content
  at each path, \<open>faults\<close> says which operation fails at which path with a failure
  other than not-found (its message), and \<open>puts\<close> logs every call of
  \<open>PutContent\<close>, so that a state tells how often the driver was written to.
\<close>

datatype driver_op = OpStat | OpGetContent | OpPutContent

record driver =
  files :: "fspath \<rightharpoonup> bytes"
  faults :: "driver_op \<Rightarrow> fspath \<rightharpoonup> string"
  puts :: "(fspath \<times> bytes) list"

text \<open>The metadata of \<open>Stat\<close> is reduced to the size of the content.\<close>

type_synonym FileInfo = nat

definition Stat :: "driver \<Rightarrow> fspath \<Rightarrow> lower_error + FileInfo" where
  "Stat d p =
     (case faults d OpStat p of
        Some msg \<Rightarrow> Inl (OtherError msg)
      | None \<Rightarrow>
          (case files d p of
             None \<Rightarrow> Inl (PathNotFoundError p)
           | Some content \<Rightarrow> Inr (length content)))"

definition GetContent :: "driver \<Rightarrow> fspath \<Rightarrow> lower_error + bytes" where
  "GetContent d p =
     (case faults d OpGetContent p of
        Some msg \<Rightarrow> Inl (OtherError msg)
      | None \<Rightarrow>
          (case files d p of
             None \<Rightarrow> Inl (PathNotFoundError p)
           | Some content \<Rightarrow> Inr content))"

definition PutContent :: "driver \<Rightarrow> fspath \<Rightarrow> bytes \<Rightarrow> driver \<times> lower_error option" where
  "PutContent d p content =
     (let d' = d\<lparr>puts := puts d @ [(p, content)]\<rparr> in
      case faults d OpPutContent p of
        Some msg \<Rightarrow> (d', Some (OtherError msg))
      | None \<Rightarrow> (d'\<lparr>files := (files d)(p \<mapsto> content)\<rparr>, None))"

text \<open>
  A driver is a shared object: the repository, the tombstone manager and the upload
  sessions hold references to it. A reference is a number and the \<open>store\<close> maps each
  reference to the state of its driver.
\<close>

type_synonym driver_ref = nat
type_synonym store = "driver_ref \<Rightarrow> driver"

subsection \<open>The path mapper\<close>

text \<open>
  \<open>pathMapper.path\<close> is defined outside this file. It is pure: it maps a path
  specification to a path, or fails on a malformed identifier. The text of the paths is
  not fixed here: a path mapper is a parameter. The first three specifications are the
  ones \<open>layerstore.go\<close> builds.

  Modelled from the spec: \<open>tombstonePathSpec\<close>, the path of the tombstone marker, is
  "derived deterministically from (repoName, digest)" by the path mapper of the
  tombstone manager.
\<close>

datatype pathSpec =
    uploadDataPathSpec string string
  | uploadStartedAtPathSpec string string
  | layerLinkPathSpec string digest
  | tombstonePathSpec string digest

type_synonym pathMapper = "pathSpec \<Rightarrow> lower_error + fspath"

subsection \<open>The tombstone manager\<close>

text \<open>
  The struct \<open>tombstone\<close> has the fields \<open>pm\<close> and \<open>driver\<close> (see
  \<open>newLayerUpload\<close>); its methods are defined outside this file.
\<close>

record tombstone =
  tomb_pm :: pathMapper
  tomb_driver :: driver_ref

text \<open>
  Modelled from the spec: \<open>tombstoneExists\<close> is missing from the source. The
  tombstone is "persisted as a marker object at a path derived deterministically from
  (repoName, digest); existence of that object is the tombstone"; "I/O errors from the
  driver propagate unchanged; path not found when checking existence means not
  tombstoned (not an error)".
\<close>

definition tombstoneExists ::
  "tombstone \<Rightarrow> store \<Rightarrow> string \<Rightarrow> digest \<Rightarrow> bool \<times> lower_error option" where
  "tombstoneExists t \<sigma> name dgst =
     (case tomb_pm t (tombstonePathSpec name dgst) of
        Inl err \<Rightarrow> (False, Some err)
      | Inr tombstonePath \<Rightarrow>
          (case Stat (\<sigma> (tomb_driver t)) tombstonePath of
             Inl err \<Rightarrow>
               (case err of
                  PathNotFoundError _ \<Rightarrow> (False, None)
                | _ \<Rightarrow> (False, Some err))
           | Inr _ \<Rightarrow> (True, None)))"

text \<open>
  Modelled from the spec: \<open>putTombstone\<close> is missing from the source. It writes the
  marker object ("no payload semantics required": the content is empty) and returns the
  driver's error, if any.
\<close>

definition putTombstone ::
  "tombstone \<Rightarrow> store \<Rightarrow> string \<Rightarrow> digest \<Rightarrow> store \<times> lower_error option" where
  "putTombstone t \<sigma> name dgst =
     (case tomb_pm t (tombstonePathSpec name dgst) of
        Inl err \<Rightarrow> (\<sigma>, Some err)
      | Inr tombstonePath \<Rightarrow>
          (case PutContent (\<sigma> (tomb_driver t)) tombstonePath [] of
             (d', err) \<Rightarrow> (\<sigma>(tomb_driver t := d'), err)))"

subsection \<open>Repository and layer store\<close>

text \<open>
  \<open>blobStore.resolve\<close> is defined outside this file: it reads the link at a path
  and returns the path of the blob the link points to. It is a parameter here, a
  function of the store since it reads the driver.
\<close>

record blobStore =
  resolve :: "store \<Rightarrow> fspath \<Rightarrow> lower_error + fspath"

text \<open>
  The fields of \<open>repository\<close> that the layer store uses; \<open>Name\<close> stands for the
  method \<open>Name()\<close>. The context \<open>ctx\<close> only feeds the logger and is left out.
\<close>

record repository =
  Name :: string
  driver :: driver_ref
  pm :: pathMapper
  blobStore :: blobStore

record layerStore =
  repository :: repository
  tomb :: tombstone

subsection \<open>layerStore.path (lines 215-236)\<close>

definition path :: "layerStore \<Rightarrow> store \<Rightarrow> digest \<Rightarrow> error + fspath" where
  "path ls \<sigma> dgst =
     (case pm (repository ls) (layerLinkPathSpec (Name (repository ls)) dgst) of
        Inl err \<Rightarrow> Inl (Lower err)
      | Inr layerLinkPath \<Rightarrow>
          (case resolve (blobStore (repository ls)) \<sigma> layerLinkPath of
             Inl err \<Rightarrow>
               (case err of
                  PathNotFoundError _ \<Rightarrow> Inl (ErrUnknownLayer dgst)
                | _ \<Rightarrow> Inl (Lower err))
           | Inr blobPath \<Rightarrow> Inr blobPath))"

subsection \<open>layerStore.Exists (lines 19-56)\<close>

text \<open>
  \<open>Exists\<close> returns a pair \<open>(bool, error)\<close>; \<open>None\<close> is Go's \<open>nil\<close>. The
  function has eight return statements. \<open>Exists_at\<close> also tells which one was
  taken, by its line in the source, and \<open>Exists\<close> is the returned pair alone. After
  \<open>Stat\<close> the source tests \<open>err != nil\<close> twice in a row (lines 42 and 46); both
  tests are kept.
\<close>

datatype return_site =
  line25 | line28 | line35 | line38 | line43 | line49 | line52 | line55

definition Exists_at ::
  "layerStore \<Rightarrow> store \<Rightarrow> digest \<Rightarrow> return_site \<times> bool \<times> error option" where
  "Exists_at ls \<sigma> dgst =
     (case tombstoneExists (tomb ls) \<sigma> (Name (repository ls)) dgst of
        (_, Some err) \<Rightarrow> (line25, False, Some (Lower err))
      | (tombstoned, None) \<Rightarrow>
          if tombstoned then (line28, False, None)
          else
            (case path ls \<sigma> dgst of
               Inl err \<Rightarrow>
                 (case err of
                    ErrUnknownLayer _ \<Rightarrow> (line35, False, None)
                  | _ \<Rightarrow> (line38, False, Some err))
             | Inr bp \<Rightarrow>
                 (let err =
                    (case Stat (\<sigma> (driver (repository ls))) bp of
                       Inl e \<Rightarrow> Some (Lower e)
                     | Inr _ \<Rightarrow> None)
                  in
                    if err \<noteq> None then (line43, False, err)
                    else if err \<noteq> None then
                      (case err of
                         Some (ErrUnknownLayer _) \<Rightarrow> (line49, False, None)
                       | _ \<Rightarrow> (line52, False, err))
                    else (line55, True, None))))"

definition Exists :: "layerStore \<Rightarrow> store \<Rightarrow> digest \<Rightarrow> bool \<times> error option" where
  "Exists ls \<sigma> dgst = snd (Exists_at ls \<sigma> dgst)"

subsection \<open>layerStore.Delete (lines 171-190)\<close>

text \<open>\<open>Delete\<close> returns the store it leaves behind and its error (\<open>None\<close> for \<open>nil\<close>).\<close>

definition Delete :: "layerStore \<Rightarrow> store \<Rightarrow> digest \<Rightarrow> store \<times> error option" where
  "Delete ls \<sigma> dgst =
     (case tombstoneExists (tomb ls) \<sigma> (Name (repository ls)) dgst of
        (_, Some err) \<Rightarrow> (\<sigma>, Some (Lower err))
      | (tombstoned, None) \<Rightarrow>
          if tombstoned then (\<sigma>, Some (ErrUnknownLayer dgst))
          else
            (case putTombstone (tomb ls) \<sigma> (Name (repository ls)) dgst of
               (\<sigma>', Some err) \<Rightarrow> (\<sigma>', Some (Lower err))
             | (\<sigma>', None) \<Rightarrow> (\<sigma>', None)))"

subsection \<open>File reader, file writer and the package's path mapper\<close>

text \<open>
  \<open>newFileReader\<close>, \<open>newFileWriter\<close> and the variable \<open>defaultPathMapper\<close>
  belong to the package but are defined outside this file. They are parameters: a
  \<open>package\<close> holds them. Allocating a handle reads the driver and writes nothing, and
  it may fail; the handle types \<open>'r\<close> and \<open>'w\<close> are left open.
\<close>

record ('r, 'w) package =
  newFileReader :: "store \<Rightarrow> driver_ref \<Rightarrow> fspath \<Rightarrow> lower_error + 'r"
  newFileWriter :: "store \<Rightarrow> driver_ref \<Rightarrow> fspath \<Rightarrow> lower_error + 'w"
  defaultPathMapper :: pathMapper

subsection \<open>layerStore.Fetch (lines 58-85)\<close>

record 'r layerReader =
  fileReader :: 'r
  digest :: digest

definition Fetch ::
  "('r, 'w) package \<Rightarrow> layerStore \<Rightarrow> store \<Rightarrow> digest \<Rightarrow> error + 'r layerReader" where
  "Fetch pkg ls \<sigma> dgst =
     (case Exists ls \<sigma> dgst of
        (_, Some err) \<Rightarrow> Inl err
      | (exists, None) \<Rightarrow>
          if \<not> exists then Inl (ErrUnknownLayer dgst)
          else
            (case path ls \<sigma> dgst of
               Inl err \<Rightarrow> Inl err
             | Inr bp \<Rightarrow>
                 (case newFileReader pkg \<sigma> (driver (repository ls)) bp of
                    Inl err \<Rightarrow> Inl (Lower err)
                  | Inr fr \<Rightarrow> Inr \<lparr>fileReader = fr, digest = dgst\<rparr>)))"

subsection \<open>Time stamps: the layout time.RFC3339\<close>

text \<open>
  \<open>Upload\<close> stores \<open>startedAt.Format(time.RFC3339)\<close> and \<open>Resume\<close> reads it back
  with \<open>time.Parse(time.RFC3339, ...)\<close>. Both functions belong to Go's standard
  library; the model follows the documentation of the package \<open>time\<close> for the one
  layout the file uses, \<open>RFC3339 = "2006-01-02T15:04:05Z07:00"\<close>: a four-digit
  year, two-digit month, day, hour, minute and second, and then the zone, \<open>Z\<close> for
  UTC or a signed offset \<open>hh:mm\<close>. The layout has no field for a fraction of a
  second.

  A \<open>Time\<close> is given by what \<open>time.Date\<close> takes: the calendar date and clock time,
  the nanosecond within the second, and the zone as its offset east of UTC in seconds.
\<close>

record Time =
  Year :: nat
  Month :: nat
  Day :: nat
  Hour :: nat
  Minute :: nat
  Second :: nat
  Nanosecond :: nat
  Offset :: int

definition isLeap :: "nat \<Rightarrow> bool" where
  "isLeap y = (y mod 4 = 0 \<and> (y mod 100 \<noteq> 0 \<or> y mod 400 = 0))"

definition daysIn :: "nat \<Rightarrow> nat \<Rightarrow> nat" where
  "daysIn m y =
     (if m = 2 then (if isLeap y then 29 else 28)
      else if m = 4 \<or> m = 6 \<or> m = 9 \<or> m = 11 then 30
      else 31)"

text \<open>
  The values \<open>time.Now().UTC()\<close> can take: a date of the calendar with a year of at
  most four digits, a time of the day, and the zone UTC.
\<close>

definition validUTC :: "Time \<Rightarrow> bool" where
  "validUTC t =
     (Year t \<le> 9999 \<and> 1 \<le> Month t \<and> Month t \<le> 12 \<and>
      1 \<le> Day t \<and> Day t \<le> daysIn (Month t) (Year t) \<and>
      Hour t < 24 \<and> Minute t < 60 \<and> Second t < 60 \<and>
      Nanosecond t < 1000000000 \<and> Offset t = 0)"

definition digitChar :: "nat \<Rightarrow> char" where
  "digitChar n = char_of (48 + n)"

definition isDigit :: "char \<Rightarrow> bool" where
  "isDigit c = (48 \<le> (of_char c :: nat) \<and> (of_char c :: nat) \<le> 57)"

definition digitVal :: "char \<Rightarrow> nat" where
  "digitVal c = of_char c - 48"

text \<open>
  \<open>appendInt\<close> with width 2 and 4, as \<open>Format\<close> calls it for the fields of the
  layout (exact for numbers below 100 and below 10000).
\<close>

definition appendInt2 :: "nat \<Rightarrow> string" where
  "appendInt2 n = [digitChar (n div 10), digitChar (n mod 10)]"

definition appendInt4 :: "nat \<Rightarrow> string" where
  "appendInt4 n =
     [digitChar (n div 1000), digitChar (n div 100 mod 10),
      digitChar (n div 10 mod 10), digitChar (n mod 10)]"

definition formatZone :: "int \<Rightarrow> string" where
  "formatZone offset =
     (if offset = 0 then ''Z''
      else
        (let zone = nat \<bar>offset\<bar> div 60 in
         (if offset < 0 then ''-'' else ''+'') @
         appendInt2 (zone div 60) @ '':'' @ appendInt2 (zone mod 60)))"

definition Format_RFC3339 :: "Time \<Rightarrow> string" where
  "Format_RFC3339 t =
     appendInt4 (Year t) @ ''-'' @ appendInt2 (Month t) @ ''-'' @ appendInt2 (Day t) @
     ''T'' @ appendInt2 (Hour t) @ '':'' @ appendInt2 (Minute t) @ '':'' @
     appendInt2 (Second t) @ formatZone (Offset t)"

text \<open>
  \<open>getnum\<close> reads one or two digits (exactly two when \<open>fixed\<close>), \<open>getyear\<close> four
  digits, \<open>skip\<close> a literal character of the layout.
\<close>

fun getnum :: "string \<Rightarrow> bool \<Rightarrow> (nat \<times> string) option" where
  "getnum (a # b # rest) fixed =
     (if \<not> isDigit a then None
      else if \<not> isDigit b then (if fixed then None else Some (digitVal a, b # rest))
      else Some (digitVal a * 10 + digitVal b, rest))"
| "getnum [a] fixed =
     (if \<not> isDigit a then None
      else if fixed then None
      else Some (digitVal a, []))"
| "getnum [] fixed = None"

fun getyear :: "string \<Rightarrow> (nat \<times> string) option" where
  "getyear (a # b # c # d # rest) =
     (if isDigit a \<and> isDigit b \<and> isDigit c \<and> isDigit d
      then Some (((digitVal a * 10 + digitVal b) * 10 + digitVal c) * 10 + digitVal d, rest)
      else None)"
| "getyear _ = None"

fun skip :: "char \<Rightarrow> string \<Rightarrow> string option" where
  "skip c (a # rest) = (if a = c then Some rest else None)"
| "skip c [] = None"

definition inRange :: "bool \<Rightarrow> unit option" where
  "inRange ok = (if ok then Some () else None)"

text \<open>
  When parsing, a fraction of a second may follow the seconds although the layout has
  none: a period or comma and digits, of which the first nine count.
\<close>

definition atoi :: "string \<Rightarrow> nat" where
  "atoi ds = foldl (\<lambda>n c. n * 10 + digitVal c) 0 ds"

definition parseNanoseconds :: "string \<Rightarrow> nat" where
  "parseNanoseconds ds = atoi (take 9 ds) * 10 ^ (9 - length (take 9 ds))"

fun getfraction :: "string \<Rightarrow> nat \<times> string" where
  "getfraction (a # b # rest) =
     (if (a = CHR ''.'' \<or> a = CHR '','') \<and> isDigit b
      then (parseNanoseconds (takeWhile isDigit (b # rest)), dropWhile isDigit (b # rest))
      else (0, a # b # rest))"
| "getfraction v = (0, v)"

fun getzone :: "string \<Rightarrow> (int \<times> string) option" where
  "getzone [] = None"
| "getzone (s # v) =
     (if s = CHR ''Z'' then Some (0, v)
      else
        (case v of
           h1 # h2 # c # m1 # m2 # rest \<Rightarrow>
             (if c \<noteq> CHR '':'' then None
              else
                do {
                  (hr, _) \<leftarrow> getnum [h1, h2] True;
                  (mm, _) \<leftarrow> getnum [m1, m2] True;
                  _ \<leftarrow> inRange (hr \<le> 24 \<and> mm \<le> 60);
                  if s = CHR ''+'' then Some (int ((hr * 60 + mm) * 60), rest)
                  else if s = CHR ''-'' then Some (- int ((hr * 60 + mm) * 60), rest)
                  else None
                })
         | _ \<Rightarrow> None))"

definition parse_RFC3339 :: "string \<Rightarrow> Time option" where
  "parse_RFC3339 value =
     do {
       (year, v) \<leftarrow> getyear value;
       v \<leftarrow> skip CHR ''-'' v;
       (month, v) \<leftarrow> getnum v True;
       _ \<leftarrow> inRange (0 < month \<and> month \<le> 12);
       v \<leftarrow> skip CHR ''-'' v;
       (day, v) \<leftarrow> getnum v True;
       v \<leftarrow> skip CHR ''T'' v;
       (hour, v) \<leftarrow> getnum v False;
       _ \<leftarrow> inRange (hour < 24);
       v \<leftarrow> skip CHR '':'' v;
       (min, v) \<leftarrow> getnum v True;
       _ \<leftarrow> inRange (min < 60);
       v \<leftarrow> skip CHR '':'' v;
       (sec, v) \<leftarrow> getnum v True;
       _ \<leftarrow> inRange (sec < 60);
       (nsec, v) \<leftarrow> Some (getfraction v);
       (offset, v) \<leftarrow> getzone v;
       _ \<leftarrow> inRange (v = []);
       _ \<leftarrow> inRange (1 \<le> day \<and> day \<le> daysIn month year);
       Some \<lparr>Year = year, Month = month, Day = day, Hour = hour, Minute = min,
             Second = sec, Nanosecond = nsec, Offset = offset\<rparr>
     }"

text \<open>\<open>time.Parse\<close> returns a \<open>*time.ParseError\<close> for a text it does not accept.\<close>

definition Parse_RFC3339 :: "string \<Rightarrow> error + Time" where
  "Parse_RFC3339 value =
     (case parse_RFC3339 value of
        None \<Rightarrow> Inl (ParseError value)
      | Some t \<Rightarrow> Inr t)"

subsection \<open>layerStore.newLayerUpload (lines 193-213)\<close>

text \<open>
  Modelled from the spec: the field \<open>resumableDigester\<close> and the method
  \<open>setupResumableDigester\<close> are missing from the source. On creation the session
  "must initialize any incremental content-hashing state"; the state of a digester is
  the bytes it has hashed, and a new one has hashed none.
\<close>

record 'w layerWriter =
  lw_layerStore :: layerStore
  lw_uuid :: string
  lw_startedAt :: Time
  lw_bufferedFileWriter :: 'w
  lw_tomb :: tombstone
  lw_resumableDigester :: "bytes option"

definition setupResumableDigester :: "'w layerWriter \<Rightarrow> 'w layerWriter" where
  "setupResumableDigester lw = lw\<lparr>lw_resumableDigester := Some []\<rparr>"

definition newLayerUpload ::
  "('r, 'w) package \<Rightarrow> layerStore \<Rightarrow> store \<Rightarrow> string \<Rightarrow> fspath \<Rightarrow> Time \<Rightarrow>
   error + 'w layerWriter" where
  "newLayerUpload pkg ls \<sigma> uuid dataPath startedAt =
     (case newFileWriter pkg \<sigma> (driver (repository ls)) dataPath of
        Inl err \<Rightarrow> Inl (Lower err)
      | Inr fw \<Rightarrow>
          (let lw =
             \<lparr>lw_layerStore = ls, lw_uuid = uuid, lw_startedAt = startedAt,
              lw_bufferedFileWriter = fw,
              lw_tomb = \<lparr>tomb_pm = defaultPathMapper pkg,
                         tomb_driver = driver (repository ls)\<rparr>,
              lw_resumableDigester = None\<rparr>
           in Inr (setupResumableDigester lw)))"

subsection \<open>layerStore.Upload (lines 90-125)\<close>

text \<open>
  \<open>uuid\<close> is the value of \<open>uuid.New()\<close> and \<open>startedAt\<close> the value of
  \<open>time.Now().UTC()\<close>: the token generator and the clock are inputs. \<open>Upload\<close>
  returns the store it leaves behind, also when it fails after the marker is written.
\<close>

definition Upload ::
  "('r, 'w) package \<Rightarrow> layerStore \<Rightarrow> store \<Rightarrow> string \<Rightarrow> Time \<Rightarrow>
   store \<times> (error + 'w layerWriter)" where
  "Upload pkg ls \<sigma> uuid startedAt =
     (case pm (repository ls) (uploadDataPathSpec (Name (repository ls)) uuid) of
        Inl err \<Rightarrow> (\<sigma>, Inl (Lower err))
      | Inr dataPath \<Rightarrow>
          (case pm (repository ls) (uploadStartedAtPathSpec (Name (repository ls)) uuid) of
             Inl err \<Rightarrow> (\<sigma>, Inl (Lower err))
           | Inr startedAtPath \<Rightarrow>
               (case PutContent (\<sigma> (driver (repository ls))) startedAtPath
                       (Format_RFC3339 startedAt) of
                  (d', Some err) \<Rightarrow> (\<sigma>(driver (repository ls) := d'), Inl (Lower err))
                | (d', None) \<Rightarrow>
                    (let \<sigma>' = \<sigma>(driver (repository ls) := d')
                     in (\<sigma>', newLayerUpload pkg ls \<sigma>' uuid dataPath startedAt)))))"

subsection \<open>layerStore.Resume (lines 129-167)\<close>

definition Resume ::
  "('r, 'w) package \<Rightarrow> layerStore \<Rightarrow> store \<Rightarrow> string \<Rightarrow> error + 'w layerWriter" where
  "Resume pkg ls \<sigma> uuid =
     (case pm (repository ls) (uploadStartedAtPathSpec (Name (repository ls)) uuid) of
        Inl err \<Rightarrow> Inl (Lower err)
      | Inr startedAtPath \<Rightarrow>
          (case GetContent (\<sigma> (driver (repository ls))) startedAtPath of
             Inl err \<Rightarrow>
               (case err of
                  PathNotFoundError _ \<Rightarrow> Inl ErrLayerUploadUnknown
                | _ \<Rightarrow> Inl (Lower err))
           | Inr startedAtBytes \<Rightarrow>
               (case Parse_RFC3339 startedAtBytes of
                  Inl err \<Rightarrow> Inl err
                | Inr startedAt \<Rightarrow>
                    (case pm (repository ls)
                            (uploadDataPathSpec (Name (repository ls)) uuid) of
                       Inl err \<Rightarrow> Inl (Lower err)
                     | Inr dataPath \<Rightarrow>
                         newLayerUpload pkg ls \<sigma> uuid dataPath startedAt))))"

subsection \<open>A sample repository\<close>

text \<open>
  The examples below run the layer store on a small repository: a path mapper that
  rejects a layer link for the empty digest, a blob store whose links hold the name of the blob, an
  in-memory driver without faults, and handles that are the path they are bound to.
\<close>

definition pm0 :: pathMapper where
  "pm0 spec =
     (case spec of
        uploadDataPathSpec name uuid \<Rightarrow> Inr (''u/'' @ name @ ''/'' @ uuid @ ''/data'')
      | uploadStartedAtPathSpec name uuid \<Rightarrow> Inr (''u/'' @ name @ ''/'' @ uuid @ ''/startedat'')
      | layerLinkPathSpec name dgst \<Rightarrow>
          (if dgst = [] then Inl (OtherError ''invalid digest'')
           else Inr (''l/'' @ name @ ''/'' @ dgst))
      | tombstonePathSpec name dgst \<Rightarrow> Inr (''t/'' @ name @ ''/'' @ dgst))"

definition resolve0 :: "store \<Rightarrow> fspath \<Rightarrow> lower_error + fspath" where
  "resolve0 \<sigma> linkPath =
     (case GetContent (\<sigma> 0) linkPath of
        Inl err \<Rightarrow> Inl err
      | Inr content \<Rightarrow> Inr (''b/'' @ content))"

definition ls0 :: layerStore where
  "ls0 =
     \<lparr>repository = \<lparr>Name = ''r'', driver = 0, pm = pm0, blobStore = \<lparr>resolve = resolve0\<rparr>\<rparr>,
      tomb = \<lparr>tomb_pm = pm0, tomb_driver = 0\<rparr>\<rparr>"

definition pkg0 :: "(fspath, fspath) package" where
  "pkg0 =
     \<lparr>newFileReader = (\<lambda>\<sigma> r p. Inr p),
      newFileWriter =
        (\<lambda>\<sigma> r p. case faults (\<sigma> r) OpStat p of
                     Some msg \<Rightarrow> Inl (OtherError msg)
                   | None \<Rightarrow> Inr p),
      defaultPathMapper = pm0\<rparr>"

definition driver0 :: driver where
  "driver0 = \<lparr>files = Map.empty, faults = (\<lambda>op p. None), puts = []\<rparr>"

definition empty_store :: store where
  "empty_store = (\<lambda>r. driver0)"

text \<open>A store in which the repository \<open>r\<close> links the digest \<open>d1\<close> to a stored blob.\<close>

definition linked_store :: store where
  "linked_store =
     (\<lambda>r. driver0\<lparr>files := [''l/r/d1'' \<mapsto> ''d1'', ''b/d1'' \<mapsto> ''blob'']\<rparr>)"

text \<open>A store whose link for \<open>d1\<close> points to a blob that is not there.\<close>

definition dangling_store :: store where
  "dangling_store = (\<lambda>r. driver0\<lparr>files := [''l/r/d1'' \<mapsto> ''d1'']\<rparr>)"

text \<open>A driver that fails on some operation at some path with an I/O error.\<close>

definition failing :: "driver_op \<Rightarrow> fspath \<Rightarrow> driver \<Rightarrow> driver" where
  "failing op p d = d\<lparr>faults := (faults d)(op := [p \<mapsto> ''i/o error''])\<rparr>"

definition now0 :: Time where
  "now0 =
     \<lparr>Year = 2015, Month = 3, Day = 7, Hour = 9, Minute = 5, Second = 59,
      Nanosecond = 123456789, Offset = 0\<rparr>"

text \<open>The store after \<open>Delete\<close> of \<open>d1\<close> in \<open>linked_store\<close>.\<close>

definition deleted_store :: store where
  "deleted_store = fst (Delete ls0 linked_store ''d1'')"

text \<open>\<open>linked_store\<close> on a driver that refuses to write the tombstone marker of \<open>d1\<close>.\<close>

definition readonly_store :: store where
  "readonly_store = (\<lambda>r. failing OpPutContent ''t/r/d1'' (linked_store r))"

text \<open>\<open>linked_store\<close> with a link that cannot be read, and with a blob that cannot be examined.\<close>

definition unreadable_link_store :: store where
  "unreadable_link_store = (\<lambda>r. failing OpGetContent ''l/r/d1'' (linked_store r))"

definition unstattable_blob_store :: store where
  "unstattable_blob_store = (\<lambda>r. failing OpStat ''b/d1'' (linked_store r))"

text \<open>
  The upload \<open>u1\<close> started at \<open>now0\<close> in the empty store: the store it leaves, the
  session it returns, and the store after three bytes were written to its data path.
\<close>

definition uploaded_store :: store where
  "uploaded_store = fst (Upload pkg0 ls0 empty_store ''u1'' now0)"

definition session0 :: "fspath layerWriter" where
  "session0 =
     \<lparr>lw_layerStore = ls0, lw_uuid = ''u1'', lw_startedAt = now0,
      lw_bufferedFileWriter = ''u/r/u1/data'',
      lw_tomb = \<lparr>tomb_pm = pm0, tomb_driver = 0\<rparr>,
      lw_resumableDigester = Some []\<rparr>"

definition written_store :: store where
  "written_store =
     uploaded_store(0 := fst (PutContent (uploaded_store 0) ''u/r/u1/data'' ''abc''))"

text \<open>
  A second upload \<open>u2\<close> while \<open>u1\<close> is in flight: its session, and a driver that
  refuses to write its marker.
\<close>

definition session2 :: "fspath layerWriter" where
  "session2 =
     \<lparr>lw_layerStore = ls0, lw_uuid = ''u2'', lw_startedAt = now0,
      lw_bufferedFileWriter = ''u/r/u2/data'',
      lw_tomb = \<lparr>tomb_pm = pm0, tomb_driver = 0\<rparr>,
      lw_resumableDigester = Some []\<rparr>"

definition full_disk_store :: store where
  "full_disk_store = (\<lambda>r. failing OpPutContent ''u/r/u2/startedat'' (uploaded_store r))"

text \<open>The marker of \<open>u1\<close> on a driver that cannot read it, and a marker that is no time stamp.\<close>

definition unreadable_marker_store :: store where
  "unreadable_marker_store =
     (\<lambda>r. failing OpGetContent ''u/r/u1/startedat'' (uploaded_store r))"

definition garbled_marker_store :: store where
  "garbled_marker_store =
     (\<lambda>r. driver0\<lparr>files := [''u/r/u1/startedat'' \<mapsto> ''2015-03-07 09:05'']\<rparr>)"

section \<open>Properties\<close>

subsection \<open>The tombstone manager over the driver\<close>

lemma putTombstone_success:
  assumes "putTombstone t \<sigma> name dgst = (\<sigma>', None)"
  shows "\<exists>tp. tomb_pm t (tombstonePathSpec name dgst) = Inr tp \<and>
           faults (\<sigma> (tomb_driver t)) OpPutContent tp = None \<and>
           \<sigma>' = \<sigma>(tomb_driver t := (\<sigma> (tomb_driver t))
                   \<lparr>puts := puts (\<sigma> (tomb_driver t)) @ [(tp, [])],
                    files := (files (\<sigma> (tomb_driver t)))(tp \<mapsto> [])\<rparr>)"
  using assms
  by (auto simp: putTombstone_def PutContent_def Let_def split: sum.splits option.splits)

lemma tombstoneExists_False:
  assumes "tombstoneExists t \<sigma> name dgst = (False, None)"
  shows "\<exists>tp. tomb_pm t (tombstonePathSpec name dgst) = Inr tp \<and>
           faults (\<sigma> (tomb_driver t)) OpStat tp = None \<and>
           files (\<sigma> (tomb_driver t)) tp = None"
  using assms
  by (auto simp: tombstoneExists_def Stat_def split: sum.splits option.splits lower_error.splits)

lemma tombstoneExists_after_put:
  assumes "tombstoneExists t \<sigma> name dgst = (False, None)"
      and "putTombstone t \<sigma> name dgst = (\<sigma>', None)"
  shows "tombstoneExists t \<sigma>' name dgst = (True, None)"
proof -
  from tombstoneExists_False [OF assms(1)] obtain tp where
    tp: "tomb_pm t (tombstonePathSpec name dgst) = Inr tp"
    and nf: "faults (\<sigma> (tomb_driver t)) OpStat tp = None"
    by blast
  from putTombstone_success [OF assms(2)] tp have
    "\<sigma>' = \<sigma>(tomb_driver t := (\<sigma> (tomb_driver t))
                   \<lparr>puts := puts (\<sigma> (tomb_driver t)) @ [(tp, [])],
                    files := (files (\<sigma> (tomb_driver t)))(tp \<mapsto> [])\<rparr>)"
    by auto
  with tp nf show ?thesis
    by (simp add: tombstoneExists_def Stat_def)
qed

lemma Delete_success:
  assumes "Delete ls \<sigma> dgst = (\<sigma>', None)"
  shows "tombstoneExists (tomb ls) \<sigma> (Name (repository ls)) dgst = (False, None) \<and>
         putTombstone (tomb ls) \<sigma> (Name (repository ls)) dgst = (\<sigma>', None)"
  using assms
  by (auto simp: Delete_def split: prod.splits option.splits if_splits)

lemma Exists_at_tombstoned:
  assumes "tombstoneExists (tomb ls) \<sigma> (Name (repository ls)) dgst = (True, None)"
  shows "Exists_at ls \<sigma> dgst = (line28, False, None)"
  using assms by (simp add: Exists_at_def)

subsection \<open>The sample repository, evaluated\<close>

lemmas sample_defs =
  ls0_def pm0_def resolve0_def pkg0_def driver0_def empty_store_def linked_store_def
  dangling_store_def failing_def

lemmas model_defs =
  Exists_def Exists_at_def path_def tombstoneExists_def putTombstone_def Delete_def Fetch_def
  Stat_def GetContent_def PutContent_def Upload_def Resume_def newLayerUpload_def
  setupResumableDigester_def Let_def

lemma Delete_sample: "Delete ls0 linked_store ''d1'' = (deleted_store, None)"
proof -
  have "snd (Delete ls0 linked_store ''d1'') = None"
    by (simp add: Delete_def tombstoneExists_def putTombstone_def PutContent_def Stat_def
        sample_defs)
  then show ?thesis
    by (simp add: deleted_store_def prod_eq_iff)
qed

lemma deleted_store_0:
  "deleted_store 0 =
     \<lparr>files = [''l/r/d1'' \<mapsto> ''d1'', ''b/d1'' \<mapsto> ''blob'', ''t/r/d1'' \<mapsto> []],
      faults = (\<lambda>op p. None),
      puts = [(''t/r/d1'', [])]\<rparr>"
  by (simp add: deleted_store_def Delete_def tombstoneExists_def putTombstone_def
      PutContent_def Stat_def sample_defs)

subsection \<open>Delete, then Exists and Fetch\<close>

text \<open>
  C1 (tombstone precedence). For every digest, in the store that a successful
  \<open>Delete\<close> leaves behind, \<open>Exists\<close> returns \<open>(false, nil)\<close> and \<open>Fetch\<close> fails with
  \<open>ErrUnknownLayer\<close> carrying the digest. Nothing is assumed about the link: the
  statement holds for every path mapper and every \<open>resolve\<close>, so also when the link
  still resolves. \<open>Exists\<close> returns at line 28, after the tombstone lookup and before
  the link resolution of line 31, and \<open>Fetch\<close> returns on that answer of \<open>Exists\<close>.
\<close>

theorem tombstone_precedence:
  assumes "Delete ls \<sigma> dgst = (\<sigma>', None)"
  shows "Exists_at ls \<sigma>' dgst = (line28, False, None) \<and>
         Exists ls \<sigma>' dgst = (False, None) \<and>
         Fetch pkg ls \<sigma>' dgst = Inl (ErrUnknownLayer dgst)"
proof -
  from Delete_success [OF assms] have
    "tombstoneExists (tomb ls) \<sigma>' (Name (repository ls)) dgst = (True, None)"
    by (blast intro: tombstoneExists_after_put)
  then have "Exists_at ls \<sigma>' dgst = (line28, False, None)"
    by (rule Exists_at_tombstoned)
  then show ?thesis
    by (simp add: Exists_def Fetch_def)
qed

text \<open>
  In the sample repository the layer \<open>d1\<close> exists before \<open>Delete\<close>; afterwards its link
  still resolves and its blob is still there, and \<open>Exists\<close> and \<open>Fetch\<close> deny it.
\<close>

theorem tombstone_precedence_witness:
  "Exists ls0 linked_store ''d1'' = (True, None) \<and>
   Delete ls0 linked_store ''d1'' = (deleted_store, None) \<and>
   path ls0 deleted_store ''d1'' = Inr ''b/d1'' \<and>
   Stat (deleted_store 0) ''b/d1'' = Inr 4 \<and>
   Exists ls0 deleted_store ''d1'' = (False, None) \<and>
   Fetch pkg0 ls0 deleted_store ''d1'' = Inl (ErrUnknownLayer ''d1'')"
proof -
  have before: "Exists ls0 linked_store ''d1'' = (True, None)"
    by (simp add: Exists_def Exists_at_def tombstoneExists_def path_def Stat_def
        GetContent_def sample_defs)
  have link: "path ls0 deleted_store ''d1'' = Inr ''b/d1''"
    by (simp add: path_def GetContent_def deleted_store_0 ls0_def pm0_def resolve0_def)
  have blob: "Stat (deleted_store 0) ''b/d1'' = Inr 4"
    by (simp add: Stat_def deleted_store_0)
  from tombstone_precedence [OF Delete_sample, of pkg0] before Delete_sample link blob
  show ?thesis by simp
qed

subsection \<open>Delete twice\<close>

text \<open>
  \<open>Delete\<close> returns the error of \<open>putTombstone\<close> (lines 185-187). On a driver that
  refuses to write the marker, the first \<open>Delete\<close> of a digest that is not tombstoned
  returns that error, and the digest is not tombstoned afterwards.
\<close>

theorem Delete_first_call_counterexample:
  "tombstoneExists (tomb ls0) readonly_store (Name (repository ls0)) ''d1'' = (False, None) \<and>
   snd (Delete ls0 readonly_store ''d1'') = Some (Lower (OtherError ''i/o error'')) \<and>
   tombstoneExists (tomb ls0) (fst (Delete ls0 readonly_store ''d1'')) (Name (repository ls0))
     ''d1'' = (False, None)"
  by (simp add: Delete_def tombstoneExists_def putTombstone_def PutContent_def Stat_def
      readonly_store_def sample_defs)

text \<open>
  C2, amended. For every digest that is not yet tombstoned, the first \<open>Delete\<close> calls
  \<open>putTombstone\<close> and returns what it returns: its error when the marker cannot be
  written, and otherwise no error, with the tombstone created. After a first call
  without error, a second \<open>Delete\<close> of the digest fails with \<open>ErrUnknownLayer\<close> carrying
  the digest and leaves the store as it is; the store holds the log of all calls of
  \<open>PutContent\<close>, so \<open>putTombstone\<close> is not called again.
\<close>

theorem Delete_twice:
  assumes "tombstoneExists (tomb ls) \<sigma> (Name (repository ls)) dgst = (False, None)"
  shows "(putTombstone (tomb ls) \<sigma> (Name (repository ls)) dgst = (\<sigma>', Some err) \<longrightarrow>
            Delete ls \<sigma> dgst = (\<sigma>', Some (Lower err))) \<and>
         (putTombstone (tomb ls) \<sigma> (Name (repository ls)) dgst = (\<sigma>', None) \<longrightarrow>
            Delete ls \<sigma> dgst = (\<sigma>', None) \<and>
            tombstoneExists (tomb ls) \<sigma>' (Name (repository ls)) dgst = (True, None) \<and>
            Delete ls \<sigma>' dgst = (\<sigma>', Some (ErrUnknownLayer dgst)))"
proof (intro conjI impI)
  assume "putTombstone (tomb ls) \<sigma> (Name (repository ls)) dgst = (\<sigma>', Some err)"
  with assms show "Delete ls \<sigma> dgst = (\<sigma>', Some (Lower err))"
    by (simp add: Delete_def)
next
  assume put: "putTombstone (tomb ls) \<sigma> (Name (repository ls)) dgst = (\<sigma>', None)"
  with assms show "Delete ls \<sigma> dgst = (\<sigma>', None)"
    by (simp add: Delete_def)
  from assms put
  show marked: "tombstoneExists (tomb ls) \<sigma>' (Name (repository ls)) dgst = (True, None)"
    by (rule tombstoneExists_after_put)
  then show "Delete ls \<sigma>' dgst = (\<sigma>', Some (ErrUnknownLayer dgst))"
    by (simp add: Delete_def)
qed

text \<open>
  In the sample repository: two calls on \<open>linked_store\<close>, with one entry in the log of
  writes after both, and the first call on the driver that refuses the marker.
\<close>

theorem Delete_twice_witness:
  "tombstoneExists (tomb ls0) linked_store (Name (repository ls0)) ''d1'' = (False, None) \<and>
   putTombstone (tomb ls0) linked_store (Name (repository ls0)) ''d1'' = (deleted_store, None) \<and>
   Delete ls0 linked_store ''d1'' = (deleted_store, None) \<and>
   Delete ls0 deleted_store ''d1'' = (deleted_store, Some (ErrUnknownLayer ''d1'')) \<and>
   puts (linked_store 0) = [] \<and>
   puts (deleted_store 0) = [(''t/r/d1'', [])] \<and>
   tombstoneExists (tomb ls0) readonly_store (Name (repository ls0)) ''d1'' = (False, None) \<and>
   snd (putTombstone (tomb ls0) readonly_store (Name (repository ls0)) ''d1'')
     = Some (OtherError ''i/o error'') \<and>
   snd (Delete ls0 readonly_store ''d1'') = Some (Lower (OtherError ''i/o error''))"
proof -
  let ?n = "Name (repository ls0)"
  have nt: "tombstoneExists (tomb ls0) linked_store ?n ''d1'' = (False, None)"
    by (simp add: tombstoneExists_def Stat_def sample_defs)
  have "snd (putTombstone (tomb ls0) linked_store ?n ''d1'') = None"
    by (simp add: putTombstone_def PutContent_def sample_defs)
  moreover have "deleted_store = fst (putTombstone (tomb ls0) linked_store ?n ''d1'')"
    by (simp add: deleted_store_def Delete_def tombstoneExists_def Stat_def putTombstone_def
        PutContent_def sample_defs)
  ultimately have put: "putTombstone (tomb ls0) linked_store ?n ''d1'' = (deleted_store, None)"
    by (simp add: prod_eq_iff)
  have log: "puts (linked_store 0) = [] \<and> puts (deleted_store 0) = [(''t/r/d1'', [])]"
    by (simp add: deleted_store_0 linked_store_def driver0_def)
  have nt': "tombstoneExists (tomb ls0) readonly_store ?n ''d1'' = (False, None)"
    by (simp add: tombstoneExists_def Stat_def readonly_store_def sample_defs)
  let ?s = "fst (putTombstone (tomb ls0) readonly_store ?n ''d1'')"
  have refused:
    "snd (putTombstone (tomb ls0) readonly_store ?n ''d1'') = Some (OtherError ''i/o error'')"
    by (simp add: putTombstone_def PutContent_def readonly_store_def sample_defs)
  then have put': "putTombstone (tomb ls0) readonly_store ?n ''d1'' =
      (?s, Some (OtherError ''i/o error''))"
    by (simp add: prod_eq_iff)
  from Delete_twice [OF nt', of ?s "OtherError ''i/o error''"] put'
  have "snd (Delete ls0 readonly_store ''d1'') = Some (Lower (OtherError ''i/o error''))"
    by simp
  with Delete_twice [OF nt, of deleted_store] nt put log nt' refused
  show ?thesis by simp
qed

subsection \<open>What Delete writes\<close>

text \<open>
  C9 (Delete is a logical delete). A successful \<open>Delete\<close> changes the store in one
  place: on the driver of the tombstone manager, at the marker path of the repository
  name and the digest, a file that was absent now exists (and the log of writes has one
  more entry, for that path). The content at every other path of every driver is what
  it was, which covers the blobs and the links; the other drivers and the faults are
  unchanged.
\<close>

theorem Delete_writes_only_the_tombstone:
  assumes "Delete ls \<sigma> dgst = (\<sigma>', None)"
  shows "\<exists>tp. tomb_pm (tomb ls) (tombstonePathSpec (Name (repository ls)) dgst) = Inr tp \<and>
           files (\<sigma> (tomb_driver (tomb ls))) tp = None \<and>
           files (\<sigma>' (tomb_driver (tomb ls))) tp = Some [] \<and>
           puts (\<sigma>' (tomb_driver (tomb ls))) = puts (\<sigma> (tomb_driver (tomb ls))) @ [(tp, [])] \<and>
           (\<forall>r p. (r, p) \<noteq> (tomb_driver (tomb ls), tp) \<longrightarrow> files (\<sigma>' r) p = files (\<sigma> r) p) \<and>
           (\<forall>r. r \<noteq> tomb_driver (tomb ls) \<longrightarrow> \<sigma>' r = \<sigma> r) \<and>
           (\<forall>r. faults (\<sigma>' r) = faults (\<sigma> r))"
proof -
  let ?t = "tomb ls" and ?n = "Name (repository ls)"
  from Delete_success [OF assms] have
    nt: "tombstoneExists ?t \<sigma> ?n dgst = (False, None)" and
    put: "putTombstone ?t \<sigma> ?n dgst = (\<sigma>', None)"
    by simp_all
  from putTombstone_success [OF put] obtain tp where
    tp: "tomb_pm ?t (tombstonePathSpec ?n dgst) = Inr tp" and
    upd: "\<sigma>' = \<sigma>(tomb_driver ?t := (\<sigma> (tomb_driver ?t))
                   \<lparr>puts := puts (\<sigma> (tomb_driver ?t)) @ [(tp, [])],
                    files := (files (\<sigma> (tomb_driver ?t)))(tp \<mapsto> [])\<rparr>)"
    by blast
  from tombstoneExists_False [OF nt] tp have absent: "files (\<sigma> (tomb_driver ?t)) tp = None"
    by auto
  have "files (\<sigma>' (tomb_driver ?t)) tp = Some []"
    by (simp add: upd)
  moreover have "puts (\<sigma>' (tomb_driver ?t)) = puts (\<sigma> (tomb_driver ?t)) @ [(tp, [])]"
    by (simp add: upd)
  moreover have "\<forall>r p. (r, p) \<noteq> (tomb_driver ?t, tp) \<longrightarrow> files (\<sigma>' r) p = files (\<sigma> r) p"
    by (simp add: upd)
  moreover have "\<forall>r. r \<noteq> tomb_driver ?t \<longrightarrow> \<sigma>' r = \<sigma> r"
    by (simp add: upd)
  moreover have "\<forall>r. faults (\<sigma>' r) = faults (\<sigma> r)"
    by (simp add: upd)
  ultimately show ?thesis
    using tp absent by blast
qed

text \<open>In the sample repository the link and the blob of \<open>d1\<close> survive the \<open>Delete\<close>.\<close>

theorem Delete_writes_only_the_tombstone_witness:
  "Delete ls0 linked_store ''d1'' = (deleted_store, None) \<and>
   files (linked_store 0) ''t/r/d1'' = None \<and>
   files (deleted_store 0) ''t/r/d1'' = Some [] \<and>
   files (deleted_store 0) ''l/r/d1'' = files (linked_store 0) ''l/r/d1'' \<and>
   files (deleted_store 0) ''b/d1'' = Some ''blob'' \<and>
   deleted_store 1 = linked_store 1"
proof -
  have td: "tomb_driver (tomb ls0) = 0"
    by (simp add: ls0_def)
  have blob: "files (linked_store 0) ''b/d1'' = Some ''blob''"
    by (simp add: sample_defs)
  from Delete_writes_only_the_tombstone [OF Delete_sample] obtain tp where
    tp: "tomb_pm (tomb ls0) (tombstonePathSpec (Name (repository ls0)) ''d1'') = Inr tp" and
    absent: "files (linked_store 0) tp = None" and
    marked: "files (deleted_store 0) tp = Some []" and
    frame: "\<forall>r p. (r, p) \<noteq> (0, tp) \<longrightarrow> files (deleted_store r) p = files (linked_store r) p" and
    others: "\<forall>r. r \<noteq> 0 \<longrightarrow> deleted_store r = linked_store r"
    unfolding td by blast
  from tp have tp_eq: "tp = ''t/r/d1''"
    by (simp add: sample_defs)
  from frame have "files (deleted_store 0) ''l/r/d1'' = files (linked_store 0) ''l/r/d1''"
    unfolding tp_eq by simp
  moreover from frame have "files (deleted_store 0) ''b/d1'' = files (linked_store 0) ''b/d1''"
    unfolding tp_eq by simp
  moreover from others have "deleted_store 1 = linked_store 1"
    by simp
  ultimately show ?thesis
    using Delete_sample absent marked blob unfolding tp_eq by simp
qed

subsection \<open>Exists on a digest that is not tombstoned\<close>

text \<open>
  C6. For every digest that is not tombstoned: when the link resolution fails with the
  driver's not-found error, \<open>Exists\<close> returns \<open>(false, nil)\<close>; when it fails with any
  other error (of \<open>resolve\<close>, or of the path mapper before it), \<open>Exists\<close> returns
  that error; when the link resolves, an error of \<open>Stat\<close> on the resolved path is
  returned as it is, and a successful \<open>Stat\<close> gives \<open>(true, nil)\<close>.
\<close>

theorem Exists_not_tombstoned:
  assumes "tombstoneExists (tomb ls) \<sigma> (Name (repository ls)) dgst = (False, None)"
  shows "(pm (repository ls) (layerLinkPathSpec (Name (repository ls)) dgst) = Inr layerLinkPath \<and>
          resolve (blobStore (repository ls)) \<sigma> layerLinkPath = Inl (PathNotFoundError p)
            \<longrightarrow> Exists ls \<sigma> dgst = (False, None)) \<and>
         (pm (repository ls) (layerLinkPathSpec (Name (repository ls)) dgst) = Inr layerLinkPath \<and>
          resolve (blobStore (repository ls)) \<sigma> layerLinkPath = Inl e \<and>
          \<not> is_PathNotFoundError e
            \<longrightarrow> Exists ls \<sigma> dgst = (False, Some (Lower e))) \<and>
         (pm (repository ls) (layerLinkPathSpec (Name (repository ls)) dgst) = Inl e
            \<longrightarrow> Exists ls \<sigma> dgst = (False, Some (Lower e))) \<and>
         (pm (repository ls) (layerLinkPathSpec (Name (repository ls)) dgst) = Inr layerLinkPath \<and>
          resolve (blobStore (repository ls)) \<sigma> layerLinkPath = Inr bp \<and>
          Stat (\<sigma> (driver (repository ls))) bp = Inl e
            \<longrightarrow> Exists ls \<sigma> dgst = (False, Some (Lower e))) \<and>
         (pm (repository ls) (layerLinkPathSpec (Name (repository ls)) dgst) = Inr layerLinkPath \<and>
          resolve (blobStore (repository ls)) \<sigma> layerLinkPath = Inr bp \<and>
          Stat (\<sigma> (driver (repository ls))) bp = Inr fi
            \<longrightarrow> Exists ls \<sigma> dgst = (True, None))"
  using assms
  by (cases e) (simp_all add: Exists_def Exists_at_def path_def)

text \<open>
  The five cases in the sample repository: no link; a link that cannot be read; a
  digest the path mapper rejects; a link to a missing blob; a link to a stored blob.
\<close>

theorem Exists_not_tombstoned_witness:
  "tombstoneExists (tomb ls0) empty_store ''r'' ''d1'' = (False, None) \<and>
   resolve0 empty_store ''l/r/d1'' = Inl (PathNotFoundError ''l/r/d1'') \<and>
   Exists ls0 empty_store ''d1'' = (False, None) \<and>
   tombstoneExists (tomb ls0) unreadable_link_store ''r'' ''d1'' = (False, None) \<and>
   resolve0 unreadable_link_store ''l/r/d1'' = Inl (OtherError ''i/o error'') \<and>
   Exists ls0 unreadable_link_store ''d1'' = (False, Some (Lower (OtherError ''i/o error''))) \<and>
   tombstoneExists (tomb ls0) linked_store ''r'' [] = (False, None) \<and>
   pm0 (layerLinkPathSpec ''r'' []) = Inl (OtherError ''invalid digest'') \<and>
   Exists ls0 linked_store [] = (False, Some (Lower (OtherError ''invalid digest''))) \<and>
   tombstoneExists (tomb ls0) dangling_store ''r'' ''d1'' = (False, None) \<and>
   resolve0 dangling_store ''l/r/d1'' = Inr ''b/d1'' \<and>
   Stat (dangling_store 0) ''b/d1'' = Inl (PathNotFoundError ''b/d1'') \<and>
   Exists ls0 dangling_store ''d1'' = (False, Some (Lower (PathNotFoundError ''b/d1''))) \<and>
   tombstoneExists (tomb ls0) linked_store ''r'' ''d1'' = (False, None) \<and>
   resolve0 linked_store ''l/r/d1'' = Inr ''b/d1'' \<and>
   Stat (linked_store 0) ''b/d1'' = Inr 4 \<and>
   Exists ls0 linked_store ''d1'' = (True, None)"
proof -
  have sel: "Name (repository ls0) = ''r''"
    "pm (repository ls0) = pm0" "resolve (blobStore (repository ls0)) = resolve0"
    "driver (repository ls0) = 0"
    by (simp_all add: ls0_def)
  have nt: "tombstoneExists (tomb ls0) empty_store ''r'' ''d1'' = (False, None)"
    "tombstoneExists (tomb ls0) unreadable_link_store ''r'' ''d1'' = (False, None)"
    "tombstoneExists (tomb ls0) linked_store ''r'' [] = (False, None)"
    "tombstoneExists (tomb ls0) dangling_store ''r'' ''d1'' = (False, None)"
    "tombstoneExists (tomb ls0) linked_store ''r'' ''d1'' = (False, None)"
    by (simp_all add: tombstoneExists_def Stat_def unreadable_link_store_def sample_defs)
  have lp: "pm0 (layerLinkPathSpec ''r'' ''d1'') = Inr ''l/r/d1''"
    "pm0 (layerLinkPathSpec ''r'' []) = Inl (OtherError ''invalid digest'')"
    by (simp_all add: pm0_def)
  have rs: "resolve0 empty_store ''l/r/d1'' = Inl (PathNotFoundError ''l/r/d1'')"
    "resolve0 unreadable_link_store ''l/r/d1'' = Inl (OtherError ''i/o error'')"
    "resolve0 dangling_store ''l/r/d1'' = Inr ''b/d1''"
    "resolve0 linked_store ''l/r/d1'' = Inr ''b/d1''"
    by (simp_all add: GetContent_def unreadable_link_store_def sample_defs)
  have st: "Stat (dangling_store 0) ''b/d1'' = Inl (PathNotFoundError ''b/d1'')"
    "Stat (linked_store 0) ''b/d1'' = Inr 4"
    by (simp_all add: Stat_def sample_defs)
  note inst = Exists_not_tombstoned [of ls0, unfolded sel]
  from inst [OF nt(1), where layerLinkPath = "''l/r/d1''" and p = "''l/r/d1''"]
    inst [OF nt(2), where layerLinkPath = "''l/r/d1''" and e = "OtherError ''i/o error''"]
    inst [OF nt(3), where e = "OtherError ''invalid digest''"]
    inst [OF nt(4), where layerLinkPath = "''l/r/d1''" and bp = "''b/d1''"
      and e = "PathNotFoundError ''b/d1''"]
    inst [OF nt(5), where layerLinkPath = "''l/r/d1''" and bp = "''b/d1''" and fi = 4]
    nt lp rs st
  show ?thesis by simp
qed

subsection \<open>Exists on a dangling link\<close>

lemma Exists_at_after_Stat:
  "fst (Exists_at ls \<sigma> dgst) \<noteq> line49 \<and> fst (Exists_at ls \<sigma> dgst) \<noteq> line52"
  by (simp add: Exists_at_def Let_def split: prod.splits option.splits sum.splits error.splits)

text \<open>
  C10. For every digest that is not tombstoned and whose link resolves to a blob path:
  when \<open>Stat\<close> of that path fails with an error, the driver's not-found error included,
  \<open>Exists\<close> returns \<open>(false, that error)\<close>, at line 43. The translation of not-found
  into \<open>(false, nil)\<close> is made for the link resolution only (line 35). On no input
  does \<open>Exists\<close> return from the second block after \<open>Stat\<close> (lines 49 and 52).
\<close>

theorem Exists_dangling_link:
  "(tombstoneExists (tomb ls) \<sigma> (Name (repository ls)) dgst = (False, None) \<and>
    path ls \<sigma> dgst = Inr bp \<and>
    Stat (\<sigma> (driver (repository ls))) bp = Inl e
      \<longrightarrow> Exists_at ls \<sigma> dgst = (line43, False, Some (Lower e)) \<and>
          Exists ls \<sigma> dgst = (False, Some (Lower e))) \<and>
   fst (Exists_at ls \<sigma> dgst) \<noteq> line49 \<and>
   fst (Exists_at ls \<sigma> dgst) \<noteq> line52"
  using Exists_at_after_Stat [of ls \<sigma> dgst]
  by (simp add: Exists_def Exists_at_def)

text \<open>A link to a missing blob, and a blob whose \<open>Stat\<close> fails with an I/O error.\<close>

theorem Exists_dangling_link_witness:
  "tombstoneExists (tomb ls0) dangling_store ''r'' ''d1'' = (False, None) \<and>
   path ls0 dangling_store ''d1'' = Inr ''b/d1'' \<and>
   Stat (dangling_store 0) ''b/d1'' = Inl (PathNotFoundError ''b/d1'') \<and>
   Exists_at ls0 dangling_store ''d1''
     = (line43, False, Some (Lower (PathNotFoundError ''b/d1''))) \<and>
   Exists ls0 dangling_store ''d1'' = (False, Some (Lower (PathNotFoundError ''b/d1''))) \<and>
   Stat (unstattable_blob_store 0) ''b/d1'' = Inl (OtherError ''i/o error'') \<and>
   Exists ls0 unstattable_blob_store ''d1'' = (False, Some (Lower (OtherError ''i/o error'')))"
proof -
  have sel: "Name (repository ls0) = ''r''" "driver (repository ls0) = 0"
    by (simp_all add: ls0_def)
  have nt: "tombstoneExists (tomb ls0) dangling_store ''r'' ''d1'' = (False, None)"
    "tombstoneExists (tomb ls0) unstattable_blob_store ''r'' ''d1'' = (False, None)"
    by (simp_all add: tombstoneExists_def Stat_def unstattable_blob_store_def sample_defs)
  have pt: "path ls0 dangling_store ''d1'' = Inr ''b/d1''"
    "path ls0 unstattable_blob_store ''d1'' = Inr ''b/d1''"
    by (simp_all add: path_def GetContent_def unstattable_blob_store_def sample_defs)
  have st: "Stat (dangling_store 0) ''b/d1'' = Inl (PathNotFoundError ''b/d1'')"
    "Stat (unstattable_blob_store 0) ''b/d1'' = Inl (OtherError ''i/o error'')"
    by (simp_all add: Stat_def unstattable_blob_store_def sample_defs)
  note inst = Exists_dangling_link [of ls0, unfolded sel]
  from inst [where \<sigma> = dangling_store and dgst = "''d1''" and bp = "''b/d1''"
      and e = "PathNotFoundError ''b/d1''"]
    inst [where \<sigma> = unstattable_blob_store and dgst = "''d1''" and bp = "''b/d1''"
      and e = "OtherError ''i/o error''"]
    nt pt st
  show ?thesis by simp
qed

subsection \<open>Fetch\<close>

text \<open>
  C7. \<open>Fetch\<close> asks \<open>Exists\<close> first: when \<open>Exists\<close> answers \<open>false\<close> (with no error),
  \<open>Fetch\<close> fails with \<open>ErrUnknownLayer\<close> carrying the digest, and when \<open>Exists\<close>
  returns an error, \<open>Fetch\<close> returns that error; neither outcome depends on the link or
  the reader. Whenever \<open>Fetch\<close> succeeds, \<open>Exists\<close> answered \<open>true\<close> and the reader is
  the file reader of the resolved path together with the requested digest.
\<close>

theorem Fetch_after_Exists:
  "(Exists ls \<sigma> dgst = (False, None) \<longrightarrow> Fetch pkg ls \<sigma> dgst = Inl (ErrUnknownLayer dgst)) \<and>
   (Exists ls \<sigma> dgst = (b, Some err) \<longrightarrow> Fetch pkg ls \<sigma> dgst = Inl err) \<and>
   (Fetch pkg ls \<sigma> dgst = Inr lr \<longrightarrow>
      Exists ls \<sigma> dgst = (True, None) \<and> digest lr = dgst \<and>
      (\<exists>bp fr. path ls \<sigma> dgst = Inr bp \<and>
               newFileReader pkg \<sigma> (driver (repository ls)) bp = Inr fr \<and>
               lr = \<lparr>fileReader = fr, digest = dgst\<rparr>))"
  by (auto simp: Fetch_def split: prod.splits option.splits sum.splits if_splits)

text \<open>An unknown layer, a dangling link and a stored layer of the sample repository.\<close>

theorem Fetch_after_Exists_witness:
  "Exists ls0 empty_store ''d1'' = (False, None) \<and>
   Fetch pkg0 ls0 empty_store ''d1'' = Inl (ErrUnknownLayer ''d1'') \<and>
   Exists ls0 dangling_store ''d1'' = (False, Some (Lower (PathNotFoundError ''b/d1''))) \<and>
   Fetch pkg0 ls0 dangling_store ''d1'' = Inl (Lower (PathNotFoundError ''b/d1'')) \<and>
   Fetch pkg0 ls0 linked_store ''d1'' = Inr \<lparr>fileReader = ''b/d1'', digest = ''d1''\<rparr> \<and>
   Exists ls0 linked_store ''d1'' = (True, None)"
proof -
  have ex: "Exists ls0 empty_store ''d1'' = (False, None)"
    "Exists ls0 dangling_store ''d1'' = (False, Some (Lower (PathNotFoundError ''b/d1'')))"
    by (simp_all add: model_defs sample_defs)
  have ft: "Fetch pkg0 ls0 linked_store ''d1'' = Inr \<lparr>fileReader = ''b/d1'', digest = ''d1''\<rparr>"
    by (simp add: model_defs sample_defs)
  from Fetch_after_Exists [where ls = ls0 and \<sigma> = empty_store and dgst = "''d1''"
      and pkg = pkg0]
    Fetch_after_Exists [where ls = ls0 and \<sigma> = dangling_store and dgst = "''d1''"
      and pkg = pkg0 and b = False and err = "Lower (PathNotFoundError ''b/d1'')"]
    Fetch_after_Exists [where ls = ls0 and \<sigma> = linked_store and dgst = "''d1''"
      and pkg = pkg0 and lr = "\<lparr>fileReader = ''b/d1'', digest = ''d1''\<rparr>"]
    ex ft
  show ?thesis by simp
qed

subsection \<open>The time stamp of an upload\<close>

lemma isDigit_digitChar: "n < 10 \<Longrightarrow> isDigit (digitChar n)"
  by (simp add: isDigit_def digitChar_def)

lemma digitVal_digitChar: "n < 10 \<Longrightarrow> digitVal (digitChar n) = n"
  by (simp add: digitVal_def digitChar_def)

lemma getnum_appendInt2:
  "n < 100 \<Longrightarrow> getnum (appendInt2 n @ rest) fixed = Some (n, rest)"
  by (simp add: appendInt2_def isDigit_digitChar digitVal_digitChar)

lemma decimal4:
  "((n div 1000 * 10 + n div 100 mod 10) * 10 + n div 10 mod 10) * 10 + n mod 10 = (n::nat)"
proof -
  have a: "n div 100 = n div 10 div 10" by (simp add: div_mult2_eq)
  have b: "n div 1000 = n div 10 div 10 div 10" by (simp add: div_mult2_eq)
  show ?thesis unfolding a b by simp
qed

lemma getyear_appendInt4:
  assumes "n < 10000"
  shows "getyear (appendInt4 n @ rest) = Some (n, rest)"
proof -
  have b: "n div 1000 < 10" "n div 100 mod 10 < 10" "n div 10 mod 10 < 10" "n mod 10 < 10"
    using assms by simp_all
  show ?thesis
    by (simp only: appendInt4_def append.simps getyear.simps b isDigit_digitChar
        digitVal_digitChar decimal4 simp_thms if_True)
qed

text \<open>
  Formatting a UTC time with the layout and parsing the text gives the time of the same
  second, without its nanoseconds.
\<close>

lemma Parse_Format:
  assumes "validUTC t"
  shows "Parse_RFC3339 (Format_RFC3339 t) = Inr (t\<lparr>Nanosecond := 0\<rparr>)"
proof -
  have d: "Day t < 100"
    using assms by (auto simp: validUTC_def daysIn_def split: if_splits)
  have y: "getyear (appendInt4 (Year t) @ rest) = Some (Year t, rest)" for rest
    using assms by (simp add: getyear_appendInt4 validUTC_def)
  have n: "getnum (appendInt2 (Month t) @ rest) fixed = Some (Month t, rest)"
    "getnum (appendInt2 (Day t) @ rest) fixed = Some (Day t, rest)"
    "getnum (appendInt2 (Hour t) @ rest) fixed = Some (Hour t, rest)"
    "getnum (appendInt2 (Minute t) @ rest) fixed = Some (Minute t, rest)"
    "getnum (appendInt2 (Second t) @ rest) fixed = Some (Second t, rest)" for rest fixed
    using assms d by (simp_all add: getnum_appendInt2 validUTC_def)
  have "parse_RFC3339 (Format_RFC3339 t) = Some (t\<lparr>Nanosecond := 0\<rparr>)"
    using assms
    by (simp add: parse_RFC3339_def Format_RFC3339_def validUTC_def y n inRange_def
        formatZone_def)
  then show ?thesis
    by (simp add: Parse_RFC3339_def)
qed

lemma truncated_same: "(t\<lparr>Nanosecond := 0\<rparr> = t) = (Nanosecond t = 0)" for t :: Time
  by (cases t) simp

lemma PutContent_success:
  assumes "PutContent d p content = (d', None)"
  shows "files d' p = Some content \<and> faults d' = faults d"
  using assms by (auto simp: PutContent_def Let_def split: option.splits)

lemma newLayerUpload_startedAt:
  assumes "newLayerUpload pkg ls \<sigma> uuid dataPath startedAt = Inr lw"
  shows "lw_startedAt lw = startedAt"
  using assms
  by (auto simp: newLayerUpload_def setupResumableDigester_def split: sum.splits)

lemma newLayerUpload_other_time:
  assumes "newLayerUpload pkg ls \<sigma> uuid dataPath startedAt = Inr lw"
  shows "newLayerUpload pkg ls \<sigma> uuid dataPath t = Inr (lw\<lparr>lw_startedAt := t\<rparr>)"
  using assms
  by (auto simp: newLayerUpload_def setupResumableDigester_def split: sum.splits)

lemma Upload_success:
  assumes "Upload pkg ls \<sigma> uuid startedAt = (\<sigma>', Inr lw)"
  shows "\<exists>dataPath startedAtPath d'.
           pm (repository ls) (uploadDataPathSpec (Name (repository ls)) uuid) = Inr dataPath \<and>
           pm (repository ls) (uploadStartedAtPathSpec (Name (repository ls)) uuid)
             = Inr startedAtPath \<and>
           PutContent (\<sigma> (driver (repository ls))) startedAtPath (Format_RFC3339 startedAt)
             = (d', None) \<and>
           \<sigma>' = \<sigma>(driver (repository ls) := d') \<and>
           newLayerUpload pkg ls \<sigma>' uuid dataPath startedAt = Inr lw"
  using assms
  by (auto simp: Upload_def Let_def split: sum.splits prod.splits option.splits)

text \<open>The sample upload, evaluated.\<close>

lemma digitChar_values:
  "digitChar 0 = CHR ''0''" "digitChar 1 = CHR ''1''" "digitChar 2 = CHR ''2''"
  "digitChar 3 = CHR ''3''" "digitChar 4 = CHR ''4''" "digitChar 5 = CHR ''5''"
  "digitChar 6 = CHR ''6''" "digitChar 7 = CHR ''7''" "digitChar 8 = CHR ''8''"
  "digitChar 9 = CHR ''9''" "digitChar (Suc 0) = CHR ''1''"
  by code_simp+

lemma Format_now0: "Format_RFC3339 now0 = ''2015-03-07T09:05:59Z''"
  by (simp add: Format_RFC3339_def now0_def appendInt4_def appendInt2_def digitChar_values
      formatZone_def)

lemma validUTC_now0: "validUTC now0"
  by (simp add: validUTC_def now0_def daysIn_def)

lemma uploaded_store_0:
  "uploaded_store 0 =
     \<lparr>files = [''u/r/u1/startedat'' \<mapsto> ''2015-03-07T09:05:59Z''],
      faults = (\<lambda>op p. None),
      puts = [(''u/r/u1/startedat'', ''2015-03-07T09:05:59Z'')]\<rparr>"
  by (simp add: uploaded_store_def Upload_def PutContent_def Let_def Format_now0 sample_defs)

lemma Upload_sample:
  "Upload pkg0 ls0 empty_store ''u1'' now0 = (uploaded_store, Inr session0)"
proof -
  have "snd (Upload pkg0 ls0 empty_store ''u1'' now0) = Inr session0"
    by (simp add: Upload_def PutContent_def newLayerUpload_def setupResumableDigester_def
        Let_def session0_def sample_defs)
  then show ?thesis
    by (simp add: uploaded_store_def prod_eq_iff)
qed

lemma Parse_sample:
  "Parse_RFC3339 ''2015-03-07T09:05:59Z'' = Inr (now0\<lparr>Nanosecond := 0\<rparr>)"
  by (simp add: Parse_RFC3339_def parse_RFC3339_def inRange_def isDigit_def digitVal_def
      daysIn_def isLeap_def now0_def)

text \<open>
  An upload started at 09:05:59.123456789 UTC stores the text of 09:05:59, and
  \<open>Resume\<close> on the store it left returns a session started at 09:05:59.000000000.
\<close>

theorem Resume_start_time_counterexample:
  "validUTC now0 \<and>
   Upload pkg0 ls0 empty_store ''u1'' now0 = (uploaded_store, Inr session0) \<and>
   lw_startedAt session0 = now0 \<and>
   files (uploaded_store 0) ''u/r/u1/startedat'' = Some ''2015-03-07T09:05:59Z'' \<and>
   Resume pkg0 ls0 uploaded_store ''u1''
     = Inr (session0\<lparr>lw_startedAt := now0\<lparr>Nanosecond := 0\<rparr>\<rparr>) \<and>
   Nanosecond now0 = 123456789 \<and>
   now0\<lparr>Nanosecond := 0\<rparr> \<noteq> now0"
proof -
  have res: "Resume pkg0 ls0 uploaded_store ''u1''
     = Inr (session0\<lparr>lw_startedAt := now0\<lparr>Nanosecond := 0\<rparr>\<rparr>)"
    by (simp add: Resume_def GetContent_def uploaded_store_0 Parse_sample newLayerUpload_def
        setupResumableDigester_def session0_def ls0_def pm0_def pkg0_def)
  have "Nanosecond now0 = 123456789 \<and> now0\<lparr>Nanosecond := 0\<rparr> \<noteq> now0"
    by (simp add: now0_def)
  with validUTC_now0 Upload_sample res show ?thesis
    by (simp add: session0_def uploaded_store_0)
qed

text \<open>
  C3, amended. For every session that \<open>Upload\<close> creates with a start time \<open>S\<close> (a UTC
  time in the years 0 to 9999), the session holds \<open>S\<close>, and a later \<open>Resume\<close> on its
  token, in any store whose started-at marker is as \<open>Upload\<close> wrote it, returns only
  sessions whose start time is \<open>S\<close> cut to the whole second: the RFC3339 text keeps no
  fraction of a second, so the start time is \<open>S\<close> itself exactly when \<open>S\<close> has no
  nanoseconds. In the store that \<open>Upload\<close> left, when the driver reads the marker,
  \<open>Resume\<close> does return: the session of \<open>Upload\<close> with that start time.
\<close>

theorem Resume_start_time:
  assumes "validUTC startedAt"
      and "Upload pkg ls \<sigma> uuid startedAt = (\<sigma>', Inr lw)"
      and "pm (repository ls) (uploadStartedAtPathSpec (Name (repository ls)) uuid)
             = Inr startedAtPath"
  shows "lw_startedAt lw = startedAt \<and>
         (files (\<sigma>'' (driver (repository ls))) startedAtPath
            = files (\<sigma>' (driver (repository ls))) startedAtPath \<and>
          Resume pkg ls \<sigma>'' uuid = Inr lw''
            \<longrightarrow> lw_startedAt lw'' = startedAt\<lparr>Nanosecond := 0\<rparr> \<and>
                (lw_startedAt lw'' = startedAt) = (Nanosecond startedAt = 0)) \<and>
         (faults (\<sigma>' (driver (repository ls))) OpGetContent startedAtPath = None
            \<longrightarrow> Resume pkg ls \<sigma>' uuid
                  = Inr (lw\<lparr>lw_startedAt := startedAt\<lparr>Nanosecond := 0\<rparr>\<rparr>))"
proof -
  let ?drv = "driver (repository ls)"
  let ?t = "startedAt\<lparr>Nanosecond := 0\<rparr>"
  from Upload_success [OF assms(2)] assms(3) obtain dataPath d' where
    dp: "pm (repository ls) (uploadDataPathSpec (Name (repository ls)) uuid) = Inr dataPath" and
    put: "PutContent (\<sigma> ?drv) startedAtPath (Format_RFC3339 startedAt) = (d', None)" and
    upd: "\<sigma>' = \<sigma>(?drv := d')" and
    new: "newLayerUpload pkg ls \<sigma>' uuid dataPath startedAt = Inr lw"
    by auto
  from PutContent_success [OF put] upd have
    marker: "files (\<sigma>' ?drv) startedAtPath = Some (Format_RFC3339 startedAt)"
    by simp
  have parse: "Parse_RFC3339 (Format_RFC3339 startedAt) = Inr ?t"
    using assms(1) by (rule Parse_Format)
  have first: "lw_startedAt lw = startedAt"
    using new by (rule newLayerUpload_startedAt)
  have later: "lw_startedAt lw'' = ?t \<and> (lw_startedAt lw'' = startedAt) = (Nanosecond startedAt = 0)"
    if same: "files (\<sigma>'' ?drv) startedAtPath = files (\<sigma>' ?drv) startedAtPath"
      and res: "Resume pkg ls \<sigma>'' uuid = Inr lw''"
  proof -
    from res assms(3) dp same marker parse
    have "newLayerUpload pkg ls \<sigma>'' uuid dataPath ?t = Inr lw''"
      by (auto simp: Resume_def GetContent_def
          split: sum.splits option.splits lower_error.splits)
    then have "lw_startedAt lw'' = ?t"
      by (rule newLayerUpload_startedAt)
    then show ?thesis
      by (simp add: truncated_same)
  qed
  have now: "Resume pkg ls \<sigma>' uuid = Inr (lw\<lparr>lw_startedAt := ?t\<rparr>)"
    if "faults (\<sigma>' ?drv) OpGetContent startedAtPath = None"
    using that assms(3) dp marker parse newLayerUpload_other_time [OF new, of ?t]
    by (simp add: Resume_def GetContent_def)
  show ?thesis
  proof (intro conjI impI)
    show "lw_startedAt lw = startedAt"
      by (rule first)
  next
    assume "files (\<sigma>'' ?drv) startedAtPath = files (\<sigma>' ?drv) startedAtPath \<and>
      Resume pkg ls \<sigma>'' uuid = Inr lw''"
    then have "lw_startedAt lw'' = ?t \<and>
      (lw_startedAt lw'' = startedAt) = (Nanosecond startedAt = 0)"
      by (intro later) simp_all
    then show "lw_startedAt lw'' = ?t"
      and "(lw_startedAt lw'' = startedAt) = (Nanosecond startedAt = 0)"
      by (simp_all add: truncated_same)
  next
    assume "faults (\<sigma>' ?drv) OpGetContent startedAtPath = None"
    then show "Resume pkg ls \<sigma>' uuid = Inr (lw\<lparr>lw_startedAt := ?t\<rparr>)"
      by (rule now)
  qed
qed

text \<open>
  The sample upload, resumed at once and resumed after three bytes were written to its
  data path.
\<close>

theorem Resume_start_time_witness:
  "validUTC now0 \<and>
   Upload pkg0 ls0 empty_store ''u1'' now0 = (uploaded_store, Inr session0) \<and>
   pm (repository ls0) (uploadStartedAtPathSpec (Name (repository ls0)) ''u1'')
     = Inr ''u/r/u1/startedat'' \<and>
   faults (uploaded_store (driver (repository ls0))) OpGetContent ''u/r/u1/startedat'' = None \<and>
   Resume pkg0 ls0 uploaded_store ''u1''
     = Inr (session0\<lparr>lw_startedAt := now0\<lparr>Nanosecond := 0\<rparr>\<rparr>) \<and>
   files (written_store (driver (repository ls0))) ''u/r/u1/startedat''
     = files (uploaded_store (driver (repository ls0))) ''u/r/u1/startedat'' \<and>
   Resume pkg0 ls0 written_store ''u1''
     = Inr (session0\<lparr>lw_startedAt := now0\<lparr>Nanosecond := 0\<rparr>\<rparr>) \<and>
   lw_startedAt (session0\<lparr>lw_startedAt := now0\<lparr>Nanosecond := 0\<rparr>\<rparr>)
     = now0\<lparr>Nanosecond := 0\<rparr>"
proof -
  have sp: "pm (repository ls0) (uploadStartedAtPathSpec (Name (repository ls0)) ''u1'')
     = Inr ''u/r/u1/startedat''"
    by (simp add: ls0_def pm0_def)
  have drv: "driver (repository ls0) = 0"
    by (simp add: ls0_def)
  have readable: "faults (uploaded_store 0) OpGetContent ''u/r/u1/startedat'' = None"
    by (simp add: uploaded_store_0)
  have same: "files (written_store 0) ''u/r/u1/startedat''
     = files (uploaded_store 0) ''u/r/u1/startedat''"
    by (simp add: written_store_def PutContent_def Let_def uploaded_store_0)
  have later: "Resume pkg0 ls0 written_store ''u1''
     = Inr (session0\<lparr>lw_startedAt := now0\<lparr>Nanosecond := 0\<rparr>\<rparr>)"
    by (simp add: Resume_def GetContent_def written_store_def PutContent_def Let_def
        uploaded_store_0 Parse_sample newLayerUpload_def setupResumableDigester_def
        session0_def ls0_def pm0_def pkg0_def)
  note inst = Resume_start_time [OF validUTC_now0 Upload_sample sp, unfolded drv]
  from inst [where \<sigma>'' = written_store
      and lw'' = "session0\<lparr>lw_startedAt := now0\<lparr>Nanosecond := 0\<rparr>\<rparr>"]
    validUTC_now0 Upload_sample sp readable same later
  show ?thesis by (simp add: drv)
qed

subsection \<open>Upload\<close>

text \<open>
  C4. \<open>Upload\<close> looks at nothing that is stored: whatever the store holds (content
  under any digest, other uploads in flight), when the two paths of the token are
  mapped, the driver takes the started-at marker and the writer is allocated at the data
  path, \<open>Upload\<close> returns the session of the store, the token, the writer, the start
  time and a tombstone handle of its own on the repository's driver. When \<open>Upload\<close>
  fails, its error is the error of a path mapping, of the marker write or of the writer
  allocation. The token comes from \<open>uuid.New()\<close>, which is an input here: that it is
  fresh is a property of the generator.
\<close>

theorem Upload_proceeds:
  "(pm (repository ls) (uploadDataPathSpec (Name (repository ls)) uuid) = Inr dataPath \<and>
    pm (repository ls) (uploadStartedAtPathSpec (Name (repository ls)) uuid) = Inr startedAtPath \<and>
    PutContent (\<sigma> (driver (repository ls))) startedAtPath (Format_RFC3339 startedAt) = (d', None) \<and>
    newFileWriter pkg (\<sigma>(driver (repository ls) := d')) (driver (repository ls)) dataPath = Inr fw
      \<longrightarrow> Upload pkg ls \<sigma> uuid startedAt =
            (\<sigma>(driver (repository ls) := d'),
             Inr \<lparr>lw_layerStore = ls, lw_uuid = uuid, lw_startedAt = startedAt,
                  lw_bufferedFileWriter = fw,
                  lw_tomb = \<lparr>tomb_pm = defaultPathMapper pkg,
                             tomb_driver = driver (repository ls)\<rparr>,
                  lw_resumableDigester = Some []\<rparr>)) \<and>
   (Upload pkg ls \<sigma> uuid startedAt = (\<sigma>', Inl err) \<longrightarrow>
      (\<exists>e. err = Lower e \<and>
         (pm (repository ls) (uploadDataPathSpec (Name (repository ls)) uuid) = Inl e \<or>
          pm (repository ls) (uploadStartedAtPathSpec (Name (repository ls)) uuid) = Inl e \<or>
          (\<exists>p. pm (repository ls) (uploadStartedAtPathSpec (Name (repository ls)) uuid) = Inr p \<and>
                snd (PutContent (\<sigma> (driver (repository ls))) p (Format_RFC3339 startedAt)) = Some e) \<or>
          (\<exists>p. pm (repository ls) (uploadDataPathSpec (Name (repository ls)) uuid) = Inr p \<and>
                newFileWriter pkg \<sigma>' (driver (repository ls)) p = Inl e))))"
proof (intro conjI impI)
  assume "pm (repository ls) (uploadDataPathSpec (Name (repository ls)) uuid) = Inr dataPath \<and>
    pm (repository ls) (uploadStartedAtPathSpec (Name (repository ls)) uuid) = Inr startedAtPath \<and>
    PutContent (\<sigma> (driver (repository ls))) startedAtPath (Format_RFC3339 startedAt) = (d', None) \<and>
    newFileWriter pkg (\<sigma>(driver (repository ls) := d')) (driver (repository ls)) dataPath = Inr fw"
  then show "Upload pkg ls \<sigma> uuid startedAt =
            (\<sigma>(driver (repository ls) := d'),
             Inr \<lparr>lw_layerStore = ls, lw_uuid = uuid, lw_startedAt = startedAt,
                  lw_bufferedFileWriter = fw,
                  lw_tomb = \<lparr>tomb_pm = defaultPathMapper pkg,
                             tomb_driver = driver (repository ls)\<rparr>,
                  lw_resumableDigester = Some []\<rparr>)"
    by (simp add: Upload_def newLayerUpload_def setupResumableDigester_def)
next
  assume "Upload pkg ls \<sigma> uuid startedAt = (\<sigma>', Inl err)"
  then show "\<exists>e. err = Lower e \<and>
         (pm (repository ls) (uploadDataPathSpec (Name (repository ls)) uuid) = Inl e \<or>
          pm (repository ls) (uploadStartedAtPathSpec (Name (repository ls)) uuid) = Inl e \<or>
          (\<exists>p. pm (repository ls) (uploadStartedAtPathSpec (Name (repository ls)) uuid) = Inr p \<and>
                snd (PutContent (\<sigma> (driver (repository ls))) p (Format_RFC3339 startedAt)) = Some e) \<or>
          (\<exists>p. pm (repository ls) (uploadDataPathSpec (Name (repository ls)) uuid) = Inr p \<and>
                newFileWriter pkg \<sigma>' (driver (repository ls)) p = Inl e))"
    by (auto simp: Upload_def newLayerUpload_def Let_def
        split: sum.splits prod.splits option.splits)
qed

text \<open>
  A second upload while the first is in flight succeeds; on a driver that refuses the
  marker of the second upload it fails with the driver's error.
\<close>

theorem Upload_proceeds_witness:
  "files (uploaded_store 0) ''u/r/u1/startedat'' = Some ''2015-03-07T09:05:59Z'' \<and>
   snd (PutContent (uploaded_store 0) ''u/r/u2/startedat'' (Format_RFC3339 now0)) = None \<and>
   snd (Upload pkg0 ls0 uploaded_store ''u2'' now0) = Inr session2 \<and>
   snd (PutContent (full_disk_store 0) ''u/r/u2/startedat'' (Format_RFC3339 now0))
     = Some (OtherError ''i/o error'') \<and>
   snd (Upload pkg0 ls0 full_disk_store ''u2'' now0) = Inl (Lower (OtherError ''i/o error''))"
proof -
  let ?d = "fst (PutContent (uploaded_store 0) ''u/r/u2/startedat'' (Format_RFC3339 now0))"
  have sel: "Name (repository ls0) = ''r''" "pm (repository ls0) = pm0"
    "driver (repository ls0) = 0"
    by (simp_all add: ls0_def)
  have dp: "pm0 (uploadDataPathSpec ''r'' ''u2'') = Inr ''u/r/u2/data''"
    and sp: "pm0 (uploadStartedAtPathSpec ''r'' ''u2'') = Inr ''u/r/u2/startedat''"
    by (simp_all add: pm0_def)
  have marker: "files (uploaded_store 0) ''u/r/u1/startedat'' = Some ''2015-03-07T09:05:59Z''"
    by (simp add: uploaded_store_0)
  have putok:
    "snd (PutContent (uploaded_store 0) ''u/r/u2/startedat'' (Format_RFC3339 now0)) = None"
    by (simp add: PutContent_def Let_def uploaded_store_0)
  then have put:
    "PutContent (uploaded_store 0) ''u/r/u2/startedat'' (Format_RFC3339 now0) = (?d, None)"
    by (simp add: prod_eq_iff)
  have fw: "newFileWriter pkg0 (uploaded_store(0 := ?d)) 0 ''u/r/u2/data'' = Inr ''u/r/u2/data''"
    by (simp add: pkg0_def PutContent_def Let_def uploaded_store_0)
  have dpm: "defaultPathMapper pkg0 = pm0"
    by (simp add: pkg0_def)
  have refused:
    "snd (PutContent (full_disk_store 0) ''u/r/u2/startedat'' (Format_RFC3339 now0))
       = Some (OtherError ''i/o error'')"
    by (simp add: PutContent_def Let_def full_disk_store_def failing_def uploaded_store_0)
  have failed:
    "snd (Upload pkg0 ls0 full_disk_store ''u2'' now0) = Inl (Lower (OtherError ''i/o error''))"
    by (simp add: Upload_def PutContent_def Let_def full_disk_store_def failing_def
        uploaded_store_0 ls0_def pm0_def)
  note inst = Upload_proceeds [where pkg = pkg0 and ls = ls0 and uuid = "''u2''"
      and startedAt = now0, unfolded sel]
  from inst [where \<sigma> = uploaded_store and dataPath = "''u/r/u2/data''"
      and startedAtPath = "''u/r/u2/startedat''" and d' = ?d and fw = "''u/r/u2/data''"]
    dp sp put fw dpm
  have "snd (Upload pkg0 ls0 uploaded_store ''u2'' now0) = Inr session2"
    by (simp add: session2_def)
  moreover
  from inst [where \<sigma> = full_disk_store
      and \<sigma>' = "fst (Upload pkg0 ls0 full_disk_store ''u2'' now0)"
      and err = "Lower (OtherError ''i/o error'')"] failed
  have "\<exists>e. Lower (OtherError ''i/o error'') = Lower e"
    by (auto simp: prod_eq_iff)
  ultimately show ?thesis
    using marker putok refused failed by simp
qed

subsection \<open>Resume\<close>

text \<open>
  C5. For every token whose started-at path is mapped: when the driver's read of the
  marker fails with its not-found error, \<open>Resume\<close> fails with
  \<open>ErrLayerUploadUnknown\<close>; when the read fails with any other error, \<open>Resume\<close>
  returns that error as it is.
\<close>

theorem Resume_marker_not_found:
  assumes "pm (repository ls) (uploadStartedAtPathSpec (Name (repository ls)) uuid)
             = Inr startedAtPath"
  shows "(GetContent (\<sigma> (driver (repository ls))) startedAtPath = Inl (PathNotFoundError p)
            \<longrightarrow> Resume pkg ls \<sigma> uuid = Inl ErrLayerUploadUnknown) \<and>
         (GetContent (\<sigma> (driver (repository ls))) startedAtPath = Inl e \<and>
          \<not> is_PathNotFoundError e
            \<longrightarrow> Resume pkg ls \<sigma> uuid = Inl (Lower e))"
  using assms
  by (cases e) (simp_all add: Resume_def)

text \<open>A token that was never handed out, and a marker the driver cannot read.\<close>

theorem Resume_marker_not_found_witness:
  "pm (repository ls0) (uploadStartedAtPathSpec (Name (repository ls0)) ''u9'')
     = Inr ''u/r/u9/startedat'' \<and>
   GetContent (uploaded_store (driver (repository ls0))) ''u/r/u9/startedat''
     = Inl (PathNotFoundError ''u/r/u9/startedat'') \<and>
   Resume pkg0 ls0 uploaded_store ''u9'' = Inl ErrLayerUploadUnknown \<and>
   pm (repository ls0) (uploadStartedAtPathSpec (Name (repository ls0)) ''u1'')
     = Inr ''u/r/u1/startedat'' \<and>
   GetContent (unreadable_marker_store (driver (repository ls0))) ''u/r/u1/startedat''
     = Inl (OtherError ''i/o error'') \<and>
   Resume pkg0 ls0 unreadable_marker_store ''u1'' = Inl (Lower (OtherError ''i/o error''))"
proof -
  have sp: "pm (repository ls0) (uploadStartedAtPathSpec (Name (repository ls0)) ''u9'')
       = Inr ''u/r/u9/startedat''"
    "pm (repository ls0) (uploadStartedAtPathSpec (Name (repository ls0)) ''u1'')
       = Inr ''u/r/u1/startedat''"
    by (simp_all add: ls0_def pm0_def)
  have drv: "driver (repository ls0) = 0"
    by (simp add: ls0_def)
  have absent: "GetContent (uploaded_store 0) ''u/r/u9/startedat''
      = Inl (PathNotFoundError ''u/r/u9/startedat'')"
    by (simp add: GetContent_def uploaded_store_0)
  have broken: "GetContent (unreadable_marker_store 0) ''u/r/u1/startedat''
      = Inl (OtherError ''i/o error'')"
    by (simp add: GetContent_def unreadable_marker_store_def failing_def uploaded_store_0)
  from Resume_marker_not_found [OF sp(1), unfolded drv, where \<sigma> = uploaded_store
      and p = "''u/r/u9/startedat''" and pkg = pkg0]
    Resume_marker_not_found [OF sp(2), unfolded drv, where \<sigma> = unreadable_marker_store
      and e = "OtherError ''i/o error''" and pkg = pkg0]
    sp absent broken
  show ?thesis by (simp add: drv)
qed

text \<open>
  C8. For every token whose marker exists and is read, when its content does not parse
  in the layout \<open>time.RFC3339\<close>, \<open>Resume\<close> fails, and its error is the parse error of
  that content: no session and no other start time is returned.
\<close>

theorem Resume_malformed_timestamp:
  assumes "pm (repository ls) (uploadStartedAtPathSpec (Name (repository ls)) uuid)
             = Inr startedAtPath"
      and "GetContent (\<sigma> (driver (repository ls))) startedAtPath = Inr startedAtBytes"
      and "Parse_RFC3339 startedAtBytes = Inl err"
  shows "Resume pkg ls \<sigma> uuid = Inl err \<and> err = ParseError startedAtBytes"
  using assms
  by (auto simp: Resume_def Parse_RFC3339_def split: option.splits)

text \<open>A marker that holds a date and a time without seconds and zone.\<close>

theorem Resume_malformed_timestamp_witness:
  "pm (repository ls0) (uploadStartedAtPathSpec (Name (repository ls0)) ''u1'')
     = Inr ''u/r/u1/startedat'' \<and>
   GetContent (garbled_marker_store (driver (repository ls0))) ''u/r/u1/startedat''
     = Inr ''2015-03-07 09:05'' \<and>
   Parse_RFC3339 ''2015-03-07 09:05'' = Inl (ParseError ''2015-03-07 09:05'') \<and>
   Resume pkg0 ls0 garbled_marker_store ''u1'' = Inl (ParseError ''2015-03-07 09:05'')"
proof -
  have sp: "pm (repository ls0) (uploadStartedAtPathSpec (Name (repository ls0)) ''u1'')
       = Inr ''u/r/u1/startedat''"
    by (simp add: ls0_def pm0_def)
  have got: "GetContent (garbled_marker_store (driver (repository ls0))) ''u/r/u1/startedat''
       = Inr ''2015-03-07 09:05''"
    by (simp add: GetContent_def garbled_marker_store_def driver0_def ls0_def)
  have bad: "Parse_RFC3339 ''2015-03-07 09:05'' = Inl (ParseError ''2015-03-07 09:05'')"
    by (simp add: Parse_RFC3339_def parse_RFC3339_def inRange_def isDigit_def digitVal_def)
  from Resume_malformed_timestamp [where \<sigma> = garbled_marker_store and pkg = pkg0,
      OF sp got bad] sp got bad
  show ?thesis by simp
qed

end
